theory Spec2Isabelle
  imports Main "HOL-Library.Word"
begin

unbundle bit_operations_syntax

section \<open>FALCONN wrapper: construction pipeline and query facade\<close>

text \<open>
  A shallow embedding of \<^verbatim>\<open>include/falconn/wrapper/cpp_wrapper_impl.h\<close>: the
  derivation of the number of hash functions, the construction of an index and the two
  knobs of the index. The header \<^verbatim>\<open>wrapper.h\<close> and the \<^verbatim>\<open>core\<close> classes the wrapper
  wires together are not part of the sources at hand; what the wrapper needs of them is
  introduced below, each time with a note that says what is missing. The query
  operations of the index only forward to those classes and are left out.
\<close>

subsection \<open>Exceptions\<close>

text \<open>
  The wrapper throws two exception classes, each with a message. A thrown exception is
  the \<open>Inl\<close> branch of a result.
\<close>

datatype error =
    LSHNNTableSetupError string
  | LSHNearestNeighborTableError string

subsection \<open>Parameters\<close>

text \<open>
  Modelled from the spec: \<^verbatim>\<open>enum class LSHFamily\<close> is declared in \<^verbatim>\<open>wrapper.h\<close>,
  which is missing. The wrapper names \<^verbatim>\<open>Hyperplane\<close> and \<^verbatim>\<open>CrossPolytope\<close> and has an
  \<^verbatim>\<open>else\<close> branch for an ``unknown hash family'' (spec 4.3: ``any other family''), so
  there is a value besides the two.
\<close>

datatype LSHFamily = LSHFamily_Unknown | Hyperplane | CrossPolytope

text \<open>
  Modelled from the spec: \<^verbatim>\<open>enum class DistanceFunction\<close>, from the same missing header;
  spec 3 gives it the values \<open>NegativeInnerProduct\<close> and \<open>Unknown\<close>.
\<close>

datatype DistanceFunction = DistanceFunction_Unknown | NegativeInnerProduct

text \<open>
  Modelled from the spec: \<^verbatim>\<open>struct LSHConstructionParameters\<close>, from the same missing
  header, with the fields of spec 3, all of which the wrapper reads. The integer fields
  (\<^verbatim>\<open>int_fast32_t\<close>) are only compared and copied, never computed with, so they are
  \<open>int\<close>; the seed is combined bitwise and is a 64-bit word.
\<close>

record LSHConstructionParameters =
  dimension :: int
  lsh_family :: LSHFamily
  distance_function :: DistanceFunction
  k :: int
  l :: int
  seed :: "64 word"
  last_cp_dimension :: int
  num_rotations :: int
  feature_hashing_dimension :: int

text \<open>
  The template parameter \<^verbatim>\<open>PointType\<close>: the two specialisations the wrapper provides.
  Every other point type is rejected by a \<^verbatim>\<open>static_assert\<close> at compile time. The
  wrapper never looks inside a point, so the type of the points is a type variable \<open>'p\<close>
  and a point set (\<^verbatim>\<open>std::vector<PointType>\<close>) is a \<open>'p list\<close>.
\<close>

datatype PointType = DenseVector | SparseVector

subsection \<open>Number of hash functions for a bit budget\<close>

definition msg_dense_dimension_unset :: string where
  "msg_dense_dimension_unset =
     ''Vector dimension must be set to determine the number of dense cross polytope hash functions.''"

definition msg_sparse_dimension_unset :: string where
  "msg_sparse_dimension_unset =
     ''Feature hashing dimension must be set to determine  the number of sparse cross polytope hash functions.''"

definition msg_unknown_family_bits :: string where
  "msg_unknown_family_bits = ''Cannot set paramters for unknown hash family.''"

text \<open>
  \<^verbatim>\<open>core::cp_hash_helpers::compute_k_parameters_for_bits\<close> is missing. It is kept as a
  parameter \<open>cpk\<close>: a \<^verbatim>\<open>void\<close> function of the rotation dimension and the number of
  bits that may write through its two pointers, here a function from the two old
  values to the two new ones. Spec 4.3 gives the derivation no way to fail once the
  dimension is set, so \<open>cpk\<close> returns.
\<close>

type_synonym k_parameters_for_bits = "int \<Rightarrow> int \<Rightarrow> int \<times> int \<Rightarrow> int \<times> int"

text \<open>
  \<^verbatim>\<open>ComputeNumberOfHashFunctions<PointType>::compute\<close> works on the struct through a
  pointer: the result is the outcome together with the struct as it is left.
\<close>

fun compute ::
  "PointType \<Rightarrow> k_parameters_for_bits \<Rightarrow> int \<Rightarrow> LSHConstructionParameters
     \<Rightarrow> (error + unit) \<times> LSHConstructionParameters" where
  "compute DenseVector cpk number_of_hash_bits params =
     (if lsh_family params = Hyperplane then
        (Inr (), params\<lparr>k := number_of_hash_bits\<rparr>)
      else if lsh_family params = CrossPolytope then
        (if dimension params \<le> 0 then
           (Inl (LSHNNTableSetupError msg_dense_dimension_unset), params)
         else
           (case cpk (dimension params) number_of_hash_bits
                     (k params, last_cp_dimension params) of
              (k', last') \<Rightarrow>
                (Inr (), params\<lparr>k := k', last_cp_dimension := last'\<rparr>)))
      else (Inl (LSHNNTableSetupError msg_unknown_family_bits), params))"
| "compute SparseVector cpk number_of_hash_bits params =
     (if lsh_family params = Hyperplane then
        (Inr (), params\<lparr>k := number_of_hash_bits\<rparr>)
      else if lsh_family params = CrossPolytope then
        (if feature_hashing_dimension params \<le> 0 then
           (Inl (LSHNNTableSetupError msg_sparse_dimension_unset), params)
         else
           (case cpk (feature_hashing_dimension params) number_of_hash_bits
                     (k params, last_cp_dimension params) of
              (k', last') \<Rightarrow>
                (Inr (), params\<lparr>k := k', last_cp_dimension := last'\<rparr>)))
      else (Inl (LSHNNTableSetupError msg_unknown_family_bits), params))"

definition compute_number_of_hash_functions ::
  "PointType \<Rightarrow> k_parameters_for_bits \<Rightarrow> int \<Rightarrow> LSHConstructionParameters
     \<Rightarrow> (error + unit) \<times> LSHConstructionParameters" where
  "compute_number_of_hash_functions T cpk number_of_hash_bits params =
     compute T cpk number_of_hash_bits params"

subsection \<open>The collaborators of the pipeline\<close>

text \<open>
  Modelled from the spec: the four hash classes (\<^verbatim>\<open>hyperplane_hash.h\<close>,
  \<^verbatim>\<open>polytope_hash.h\<close>) are missing. An object of one of them is the constructor call
  that made it, with the arguments in the order the wrapper passes them: dimension, \<open>k\<close>,
  \<open>l\<close>, then for the cross-polytope classes the number of rotations, for the sparse one
  the feature hashing dimension, the last cross-polytope dimension, and last the seed.
\<close>

datatype LSH =
    HyperplaneHashDense int int int "64 word"
  | HyperplaneHashSparse int int int "64 word"
  | CrossPolytopeHashDense int int int int int "64 word"
  | CrossPolytopeHashSparse int int int int int int "64 word"

text \<open>
  Modelled from the spec: the constructors of the hyperplane classes, missing. Spec 4.4:
  given validated parameters, the hash function is constructed; the wrapper calls them
  with validated parameters only.
\<close>

fun new_HPHash :: "PointType \<Rightarrow> int \<Rightarrow> int \<Rightarrow> int \<Rightarrow> 64 word \<Rightarrow> error + LSH" where
  "new_HPHash DenseVector dim kk ll sd = Inr (HyperplaneHashDense dim kk ll sd)"
| "new_HPHash SparseVector dim kk ll sd = Inr (HyperplaneHashSparse dim kk ll sd)"

text \<open>
  Modelled from the spec: the constructor of the dense cross-polytope class, missing;
  spec 4.4 as for the hyperplane classes.
\<close>

definition new_CPHashDense ::
  "int \<Rightarrow> int \<Rightarrow> int \<Rightarrow> int \<Rightarrow> int \<Rightarrow> 64 word \<Rightarrow> error + LSH" where
  "new_CPHashDense dim kk ll rot lcd sd = Inr (CrossPolytopeHashDense dim kk ll rot lcd sd)"

text \<open>
  Modelled from the spec: the constructor of the sparse cross-polytope class, missing.
  Spec 8: construction must fail if the feature hashing dimension is left unset while
  the points are sparse; the wrapper's comment places that check in this class
  (``it is checked in the CP hash class, but the error message is less verbose'').
  Unset is \<open>\<le> 0\<close>, as in the sparse \<open>compute\<close> above. Spec 4.5 and 7 make a failure of
  this step a setup error; the message is not known.
\<close>

definition msg_feature_hashing_unset :: string where
  "msg_feature_hashing_unset = ''Feature hashing dimension must be at least 1.''"

definition new_CPHashSparse ::
  "int \<Rightarrow> int \<Rightarrow> int \<Rightarrow> int \<Rightarrow> int \<Rightarrow> int \<Rightarrow> 64 word \<Rightarrow> error + LSH" where
  "new_CPHashSparse dim kk ll rot fh lcd sd =
     (if fh \<le> 0 then Inl (LSHNNTableSetupError msg_feature_hashing_unset)
      else Inr (CrossPolytopeHashSparse dim kk ll rot fh lcd sd))"

text \<open>
  Modelled from the spec: \<^verbatim>\<open>get_l\<close> of the missing hash classes returns the number of
  repetitions the object was built with (spec 3: \<open>l\<close> hash tables and \<open>l\<close> repetitions
  always match; spec 4.5, step 9: the default probe count is \<open>l\<close>).
\<close>

fun get_l :: "LSH \<Rightarrow> int" where
  "get_l (HyperplaneHashDense dim kk ll sd) = ll"
| "get_l (HyperplaneHashSparse dim kk ll sd) = ll"
| "get_l (CrossPolytopeHashDense dim kk ll rot lcd sd) = ll"
| "get_l (CrossPolytopeHashSparse dim kk ll rot fh lcd sd) = ll"

text \<open>
  The seed a hash object was built with: the last argument of its constructor call.
\<close>

fun get_seed :: "LSH \<Rightarrow> 64 word" where
  "get_seed (HyperplaneHashDense dim kk ll sd) = sd"
| "get_seed (HyperplaneHashSparse dim kk ll sd) = sd"
| "get_seed (CrossPolytopeHashDense dim kk ll rot lcd sd) = sd"
| "get_seed (CrossPolytopeHashSparse dim kk ll rot fh lcd sd) = sd"

text \<open>
  \<^verbatim>\<open>PointTypeTraitsInternal<PointType>::construct_cp_hash\<close>, one per point type.
\<close>

fun construct_cp_hash :: "PointType \<Rightarrow> LSHConstructionParameters \<Rightarrow> error + LSH" where
  "construct_cp_hash DenseVector params =
     new_CPHashDense (dimension params) (k params) (l params) (num_rotations params)
       (last_cp_dimension params) (seed params XOR 93384688)"
| "construct_cp_hash SparseVector params =
     new_CPHashSparse (dimension params) (k params) (l params) (num_rotations params)
       (feature_hashing_dimension params) (last_cp_dimension params)
       (seed params XOR 93384688)"

text \<open>
  The remaining classes of the pipeline (\<^verbatim>\<open>data_storage.h\<close>, \<^verbatim>\<open>probing_hash_table.h\<close>,
  \<^verbatim>\<open>composite_hash_table.h\<close>, \<^verbatim>\<open>lsh_table.h\<close>, \<^verbatim>\<open>nn_query.h\<close>) are missing as well.
  Each object is again the constructor call that made it. A pointer handed over with
  \<^verbatim>\<open>get()\<close> or a reference is followed, so an object holds what it refers to.
\<close>

text \<open>
  Modelled from the spec: \<^verbatim>\<open>core::ArrayDataStorage\<close>, built from the points (spec 4.5,
  step 4).
\<close>

datatype 'p DataStorage = ArrayDataStorage "'p list"

text \<open>
  Modelled from the spec: \<^verbatim>\<open>StaticLinearProbingHashTable::Factory\<close>, built from a table
  size (spec 4.5, step 5).
\<close>

record HashTableFactory =
  table_size :: nat

text \<open>
  Modelled from the spec: a per-repetition hash table, of which this development keeps
  the size only; spec 4.5, step 5: the tables are sized by the factory's argument.
\<close>

record HashTable =
  ht_size :: nat

definition new_hash_table :: "HashTableFactory \<Rightarrow> HashTable" where
  "new_hash_table f = \<lparr>ht_size = table_size f\<rparr>"

text \<open>
  Modelled from the spec: \<^verbatim>\<open>core::StaticCompositeHashTable\<close>, built from a number of
  tables and a factory. Spec 4.5, steps 5 and 7: it is made of \<open>l\<close> per-repetition tables,
  each from the factory.
\<close>

record CompositeTable =
  ct_l :: int
  ct_factory :: HashTableFactory

definition ct_tables :: "CompositeTable \<Rightarrow> HashTable list" where
  "ct_tables c = replicate (nat (ct_l c)) (new_hash_table (ct_factory c))"

text \<open>
  Modelled from the spec: \<^verbatim>\<open>core::StaticLSHTable\<close>, its \<^verbatim>\<open>Query\<close> and
  \<^verbatim>\<open>core::NearestNeighborQuery\<close> (spec 4.5, steps 6 to 8), kept as their constructor
  calls; what they compute is outside this development.
\<close>

datatype 'p LSHTable = StaticLSHTable LSH CompositeTable "'p DataStorage"

datatype 'p Query = LSHTableQuery "'p LSHTable"

datatype 'p NNQuery = NearestNeighborQuery "'p Query" "'p DataStorage"

text \<open>
  \<^verbatim>\<open>DataStorageAdapter<std::vector<PointType>>::construct_data_storage\<close>.
\<close>

definition construct_data_storage :: "'p list \<Rightarrow> 'p DataStorage" where
  "construct_data_storage points = ArrayDataStorage points"

subsection \<open>The query facade\<close>

text \<open>
  Modelled from the spec: \<^verbatim>\<open>kNoMaxNumCandidates\<close> is a constant of the missing base
  class \<^verbatim>\<open>LSHNearestNeighborTable\<close>; spec 4.6 calls it a negative sentinel that means
  ``unlimited''. No proof below looks at its value.
\<close>

definition kNoMaxNumCandidates :: int where
  "kNoMaxNumCandidates = - 1"

record 'p LSHNNTableWrapper =
  m_lsh :: LSH
  m_lsh_table :: "'p LSHTable"
  m_hash_table_factory :: HashTableFactory
  m_composite_hash_table :: CompositeTable
  m_query :: "'p Query"
  m_nn_query :: "'p NNQuery"
  m_data_storage :: "'p DataStorage"
  m_num_probes :: int
  m_max_num_candidates :: int

text \<open>
  A data member \<^verbatim>\<open>x_\<close> of the class is the field \<open>m_x\<close> here (an identifier cannot end
  in an underscore). The constructor moves the seven objects in, the member initialiser
  sets the candidate cap and the body sets the probe count.
\<close>

definition new_LSHNNTableWrapper ::
  "LSH \<Rightarrow> 'p LSHTable \<Rightarrow> HashTableFactory \<Rightarrow> CompositeTable \<Rightarrow> 'p Query \<Rightarrow> 'p NNQuery
     \<Rightarrow> 'p DataStorage \<Rightarrow> 'p LSHNNTableWrapper" where
  "new_LSHNNTableWrapper lsh lsh_table hash_table_factory composite_hash_table query
       nn_query data_storage =
     \<lparr>m_lsh = lsh, m_lsh_table = lsh_table, m_hash_table_factory = hash_table_factory,
      m_composite_hash_table = composite_hash_table, m_query = query, m_nn_query = nn_query,
      m_data_storage = data_storage,
      m_num_probes = get_l lsh,
      m_max_num_candidates = kNoMaxNumCandidates\<rparr>"

definition msg_num_probes :: string where
  "msg_num_probes = ''Number of probes must be at least 1.''"

text \<open>
  A member function is a function of the object that returns its outcome together
  with the object as it is left.
\<close>

definition set_num_probes ::
  "int \<Rightarrow> 'p LSHNNTableWrapper \<Rightarrow> (error + unit) \<times> 'p LSHNNTableWrapper" where
  "set_num_probes num_probes w =
     (if num_probes \<le> 0 then (Inl (LSHNearestNeighborTableError msg_num_probes), w)
      else (Inr (), w\<lparr>m_num_probes := num_probes\<rparr>))"

definition get_num_probes :: "'p LSHNNTableWrapper \<Rightarrow> int \<times> 'p LSHNNTableWrapper" where
  "get_num_probes w = (m_num_probes w, w)"

definition set_max_num_candidates ::
  "int \<Rightarrow> 'p LSHNNTableWrapper \<Rightarrow> (error + unit) \<times> 'p LSHNNTableWrapper" where
  "set_max_num_candidates max_num_candidates w =
     (Inr (), w\<lparr>m_max_num_candidates := max_num_candidates\<rparr>)"

definition get_max_num_candidates :: "'p LSHNNTableWrapper \<Rightarrow> int \<times> 'p LSHNNTableWrapper" where
  "get_max_num_candidates w = (m_max_num_candidates w, w)"

subsection \<open>Construction\<close>

text \<open>
  Every \<^verbatim>\<open>new\<close> of the pipeline is recorded, in program order, so that ``before
  anything is allocated'' can be stated.
\<close>

datatype allocation =
    New_LSH | New_DataStorage | New_Factory | New_CompositeTable
  | New_LSHTable | New_Query | New_NNQuery | New_Wrapper

text \<open>
  \<^verbatim>\<open>points.size()\<close> is a \<^verbatim>\<open>size_t\<close>, here of 64 bits, and so is its double.
\<close>

definition construction_helper ::
  "'p list \<Rightarrow> LSHConstructionParameters \<Rightarrow> LSH
     \<Rightarrow> allocation list \<times> 'p LSHNNTableWrapper" where
  "construction_helper points params lsh =
     (let data_storage = construct_data_storage points;
          factory = \<lparr>table_size = (2 * length points) mod 2 ^ 64\<rparr>;
          composite_table = \<lparr>ct_l = l params, ct_factory = factory\<rparr>;
          lsh_table = StaticLSHTable lsh composite_table data_storage;
          query = LSHTableQuery lsh_table;
          nn_query = NearestNeighborQuery query data_storage
      in ([New_DataStorage, New_Factory, New_CompositeTable, New_LSHTable, New_Query,
           New_NNQuery, New_Wrapper],
          new_LSHNNTableWrapper lsh lsh_table factory composite_table query nn_query
            data_storage))"

definition msg_dimension :: string where
  "msg_dimension = ''Point dimension must be at least 1. Maybe you forgot to set the point dimension in the parameter struct?''"

definition msg_k :: string where
  "msg_k = ''The number of hash functions k must be at least 1. Maybe you forgot to set k in the parameter struct?''"

definition msg_l :: string where
  "msg_l = ''The number of hash tables l must be at least 1. Maybe you forgot to set l in the parameter struct?''"

definition msg_distance_function :: string where
  "msg_distance_function = ''Unknown distance function. Maybe you forgot to set the distance function in the parameter struct?''"

definition msg_num_rotations :: string where
  "msg_num_rotations = ''The number of pseudo-random rotations for the cross polytope hash must be non-negative. Maybe you forgot to set num_rotations in the parameter struct?''"

definition msg_last_cp_dimension :: string where
  "msg_last_cp_dimension = ''The last cross polytope dimension for the cross polytope hash must be at least 1. Maybe you forgot to set last_cp_dimension in the parameter struct?''"

definition msg_unknown_family :: string where
  "msg_unknown_family = ''Unknown hash family. Maybe you forgot to set the hash family in the parameter struct?''"

text \<open>
  \<^verbatim>\<open>construct_table\<close>. In both families the hash object is allocated with \<^verbatim>\<open>new\<close> and
  handed to \<open>construction_helper\<close>; a constructor that throws ends the call with its own
  allocation as the only one. The \<^verbatim>\<open>throw\<close> after the last \<^verbatim>\<open>else\<close> of the source is
  never reached: each of the three branches returns or throws.
\<close>

definition construct_table ::
  "PointType \<Rightarrow> 'p list \<Rightarrow> LSHConstructionParameters
     \<Rightarrow> allocation list \<times> (error + 'p LSHNNTableWrapper)" where
  "construct_table T points params =
     (if dimension params < 1 then ([], Inl (LSHNNTableSetupError msg_dimension))
      else if k params < 1 then ([], Inl (LSHNNTableSetupError msg_k))
      else if l params < 1 then ([], Inl (LSHNNTableSetupError msg_l))
      else if distance_function params \<noteq> NegativeInnerProduct then
        ([], Inl (LSHNNTableSetupError msg_distance_function))
      else if lsh_family params = Hyperplane then
        (case new_HPHash T (dimension params) (k params) (l params)
                (seed params XOR 93384688) of
           Inl e \<Rightarrow> ([New_LSH], Inl e)
         | Inr lsh \<Rightarrow>
             (case construction_helper points params lsh of
                (log, w) \<Rightarrow> (New_LSH # log, Inr w)))
      else if lsh_family params = CrossPolytope then
        (if num_rotations params < 0 then
           ([], Inl (LSHNNTableSetupError msg_num_rotations))
         else if last_cp_dimension params \<le> 0 then
           ([], Inl (LSHNNTableSetupError msg_last_cp_dimension))
         else
           (case construct_cp_hash T params of
              Inl e \<Rightarrow> ([New_LSH], Inl e)
            | Inr lsh \<Rightarrow>
                (case construction_helper points params lsh of
                   (log, w) \<Rightarrow> (New_LSH # log, Inr w))))
      else ([], Inl (LSHNNTableSetupError msg_unknown_family)))"

subsection \<open>Two concrete constructions\<close>

text \<open>
  A dense hyperplane index over three points and a sparse cross-polytope index over two,
  used to run the theorems below on concrete inputs.
\<close>

definition example_points :: "int list list" where
  "example_points = [[1, 0, 0, 0], [0, 1, 0, 0], [0, 0, 1, 1]]"

definition example_params :: LSHConstructionParameters where
  "example_params =
     \<lparr>dimension = 4, lsh_family = Hyperplane, distance_function = NegativeInnerProduct,
      k = 2, l = 3, seed = 409556018, last_cp_dimension = - 1, num_rotations = - 1,
      feature_hashing_dimension = - 1\<rparr>"

definition example_index :: "int list LSHNNTableWrapper" where
  "example_index =
     snd (construction_helper example_points example_params
            (HyperplaneHashDense 4 2 3 (409556018 XOR 93384688)))"

definition example_sparse_points :: "(nat \<times> int) list list" where
  "example_sparse_points = [[(0, 1), (3, 2)], [(1, 1)]]"

definition example_cp_params :: LSHConstructionParameters where
  "example_cp_params =
     \<lparr>dimension = 4, lsh_family = CrossPolytope, distance_function = NegativeInnerProduct,
      k = 2, l = 3, seed = 5, last_cp_dimension = 4, num_rotations = 2,
      feature_hashing_dimension = 8\<rparr>"

definition example_cp_index :: "(nat \<times> int) list LSHNNTableWrapper" where
  "example_cp_index =
     snd (construction_helper example_sparse_points example_cp_params
            (CrossPolytopeHashSparse 4 2 3 2 8 4 (5 XOR 93384688)))"

section \<open>Properties\<close>

subsection \<open>Shared facts about construction\<close>

text \<open>What a successful call of \<open>construct_table\<close> has gone through.\<close>

lemma construct_table_Inr:
  assumes "construct_table T points p = (log, Inr w)"
  shows "1 \<le> dimension p \<and> 1 \<le> k p \<and> 1 \<le> l p
    \<and> distance_function p = NegativeInnerProduct
    \<and> (\<exists>lsh. log = New_LSH # fst (construction_helper points p lsh)
          \<and> w = snd (construction_helper points p lsh)
          \<and> (if lsh_family p = Hyperplane
              then new_HPHash T (dimension p) (k p) (l p) (seed p XOR 93384688) = Inr lsh
              else lsh_family p = CrossPolytope \<and> 0 \<le> num_rotations p
                   \<and> 1 \<le> last_cp_dimension p \<and> construct_cp_hash T p = Inr lsh))"
  using assms
  by (auto simp add: construct_table_def split: if_splits sum.splits prod.splits)

lemma construction_helper_lsh: "m_lsh (snd (construction_helper points p lsh)) = lsh"
  by (simp add: construction_helper_def new_LSHNNTableWrapper_def Let_def)

lemma construction_helper_tables:
  "m_hash_table_factory (snd (construction_helper points p lsh))
     = \<lparr>table_size = (2 * length points) mod 2 ^ 64\<rparr>
   \<and> m_composite_hash_table (snd (construction_helper points p lsh))
     = \<lparr>ct_l = l p, ct_factory = \<lparr>table_size = (2 * length points) mod 2 ^ 64\<rparr>\<rparr>"
  by (simp add: construction_helper_def new_LSHNNTableWrapper_def Let_def)

lemma construction_helper_log:
  "fst (construction_helper points p lsh)
     = [New_DataStorage, New_Factory, New_CompositeTable, New_LSHTable, New_Query,
        New_NNQuery, New_Wrapper]"
  by (simp add: construction_helper_def Let_def)

text \<open>The six messages of the validation are six different messages.\<close>

lemma construct_table_messages_distinct:
  "distinct [msg_dimension, msg_k, msg_l, msg_distance_function, msg_num_rotations,
             msg_last_cp_dimension]"
  by (simp add: msg_dimension_def msg_k_def msg_l_def msg_distance_function_def
        msg_num_rotations_def msg_last_cp_dimension_def)

lemma example_construction:
  "construct_table DenseVector example_points example_params
     = (New_LSH # fst (construction_helper example_points example_params
                         (HyperplaneHashDense 4 2 3 (409556018 XOR 93384688))),
        Inr example_index)"
  by (simp add: construct_table_def example_params_def example_index_def
        split: prod.split)

lemma example_cp_construction:
  "construct_table SparseVector example_sparse_points example_cp_params
     = (New_LSH # fst (construction_helper example_sparse_points example_cp_params
                         (CrossPolytopeHashSparse 4 2 3 2 8 4 (5 XOR 93384688))),
        Inr example_cp_index)"
  by (simp add: construct_table_def example_cp_params_def example_cp_index_def
        new_CPHashSparse_def split: prod.split)

subsection \<open>Parameter validation\<close>

text \<open>
  C1: \<open>construct_table\<close> rejects a parameter record with the setup error of the first
  check that fails, in the order \<open>dimension < 1\<close>, \<open>k < 1\<close>, \<open>l < 1\<close>, distance function
  not \<open>NegativeInnerProduct\<close>, and, for the cross-polytope family, \<open>num_rotations < 0\<close>,
  then \<open>last_cp_dimension < 1\<close>. In each case nothing has been allocated (the log is
  empty). In particular a record with \<open>dimension = 0\<close> is rejected whatever its other
  fields are. The errors are of one class and tell the field by their message; the six
  messages differ.
\<close>

theorem construct_table_validation_order:
  "(dimension p < 1 \<longrightarrow>
      construct_table T points p = ([], Inl (LSHNNTableSetupError msg_dimension)))
   \<and> (1 \<le> dimension p \<and> k p < 1 \<longrightarrow>
      construct_table T points p = ([], Inl (LSHNNTableSetupError msg_k)))
   \<and> (1 \<le> dimension p \<and> 1 \<le> k p \<and> l p < 1 \<longrightarrow>
      construct_table T points p = ([], Inl (LSHNNTableSetupError msg_l)))
   \<and> (1 \<le> dimension p \<and> 1 \<le> k p \<and> 1 \<le> l p
        \<and> distance_function p \<noteq> NegativeInnerProduct \<longrightarrow>
      construct_table T points p = ([], Inl (LSHNNTableSetupError msg_distance_function)))
   \<and> (1 \<le> dimension p \<and> 1 \<le> k p \<and> 1 \<le> l p
        \<and> distance_function p = NegativeInnerProduct
        \<and> lsh_family p = CrossPolytope \<and> num_rotations p < 0 \<longrightarrow>
      construct_table T points p = ([], Inl (LSHNNTableSetupError msg_num_rotations)))
   \<and> (1 \<le> dimension p \<and> 1 \<le> k p \<and> 1 \<le> l p
        \<and> distance_function p = NegativeInnerProduct
        \<and> lsh_family p = CrossPolytope \<and> 0 \<le> num_rotations p
        \<and> last_cp_dimension p < 1 \<longrightarrow>
      construct_table T points p = ([], Inl (LSHNNTableSetupError msg_last_cp_dimension)))
   \<and> construct_table T points (p\<lparr>dimension := 0\<rparr>)
       = ([], Inl (LSHNNTableSetupError msg_dimension))
   \<and> distinct [msg_dimension, msg_k, msg_l, msg_distance_function, msg_num_rotations,
               msg_last_cp_dimension]"
  using construct_table_messages_distinct by (simp add: construct_table_def)

theorem construct_table_validation_order_witness:
  "construct_table DenseVector example_points (example_params\<lparr>dimension := 0, k := 0\<rparr>)
     = ([], Inl (LSHNNTableSetupError msg_dimension))
   \<and> construct_table DenseVector example_points (example_params\<lparr>k := 0, l := 0\<rparr>)
     = ([], Inl (LSHNNTableSetupError msg_k))
   \<and> construct_table DenseVector example_points
        (example_params\<lparr>l := 0, distance_function := DistanceFunction_Unknown\<rparr>)
     = ([], Inl (LSHNNTableSetupError msg_l))
   \<and> construct_table DenseVector example_points
        (example_params\<lparr>distance_function := DistanceFunction_Unknown,
                         lsh_family := CrossPolytope\<rparr>)
     = ([], Inl (LSHNNTableSetupError msg_distance_function))
   \<and> construct_table DenseVector example_points (example_params\<lparr>lsh_family := CrossPolytope\<rparr>)
     = ([], Inl (LSHNNTableSetupError msg_num_rotations))
   \<and> construct_table DenseVector example_points
        (example_params\<lparr>lsh_family := CrossPolytope, num_rotations := 0\<rparr>)
     = ([], Inl (LSHNNTableSetupError msg_last_cp_dimension))"
  using construct_table_validation_order
      [of "example_params\<lparr>dimension := 0, k := 0\<rparr>" DenseVector example_points]
    construct_table_validation_order
      [of "example_params\<lparr>k := 0, l := 0\<rparr>" DenseVector example_points]
    construct_table_validation_order
      [of "example_params\<lparr>l := 0, distance_function := DistanceFunction_Unknown\<rparr>"
          DenseVector example_points]
    construct_table_validation_order
      [of "example_params\<lparr>distance_function := DistanceFunction_Unknown,
                           lsh_family := CrossPolytope\<rparr>" DenseVector example_points]
    construct_table_validation_order
      [of "example_params\<lparr>lsh_family := CrossPolytope\<rparr>" DenseVector example_points]
    construct_table_validation_order
      [of "example_params\<lparr>lsh_family := CrossPolytope, num_rotations := 0\<rparr>"
          DenseVector example_points]
  by (simp add: example_params_def)

text \<open>
  C2: over sparse points, with the cross-polytope family, \<open>num_rotations = 2\<close> and
  \<open>last_cp_dimension = 4\<close>, construction fails with a setup error whenever the feature
  hashing dimension is unset (\<open>\<le> 0\<close>). The wrapper itself does not test that field:
  when its own checks pass, the failure is the one of the sparse cross-polytope hash
  constructor as modelled above; otherwise it is the one of an earlier check of
  \<open>construct_table\<close>.
\<close>

theorem sparse_cross_polytope_needs_feature_hashing:
  assumes "lsh_family p = CrossPolytope" and "num_rotations p = 2"
    and "last_cp_dimension p = 4" and "feature_hashing_dimension p \<le> 0"
  shows "(\<exists>log m. construct_table SparseVector points p
                     = (log, Inl (LSHNNTableSetupError m)))
    \<and> (1 \<le> dimension p \<and> 1 \<le> k p \<and> 1 \<le> l p
        \<and> distance_function p = NegativeInnerProduct \<longrightarrow>
       construct_table SparseVector points p
         = ([New_LSH], Inl (LSHNNTableSetupError msg_feature_hashing_unset)))"
  using assms
  by (simp add: construct_table_def new_CPHashSparse_def)

theorem sparse_cross_polytope_needs_feature_hashing_witness:
  "construct_table SparseVector example_sparse_points
     (example_cp_params\<lparr>feature_hashing_dimension := - 1\<rparr>)
   = ([New_LSH], Inl (LSHNNTableSetupError msg_feature_hashing_unset))"
  using sparse_cross_polytope_needs_feature_hashing
    [of "example_cp_params\<lparr>feature_hashing_dimension := - 1\<rparr>" example_sparse_points]
  by (simp add: example_cp_params_def construct_table_def new_CPHashSparse_def)

subsection \<open>Successful construction\<close>

text \<open>
  C3: for every point set and every valid parameter record, \<open>construct_table\<close> returns an
  index whose probe count is \<open>l\<close> and whose candidate cap is the sentinel
  \<open>kNoMaxNumCandidates\<close>. Valid: \<open>dimension\<close>, \<open>k\<close>, \<open>l\<close> at least 1, the distance function
  \<open>NegativeInnerProduct\<close>, and either the hyperplane family, or the cross-polytope family
  with \<open>num_rotations \<ge> 0\<close>, \<open>last_cp_dimension \<ge> 1\<close> and, over sparse points, the feature
  hashing dimension set.
\<close>

theorem valid_parameters_build_an_index:
  assumes "1 \<le> dimension p" and "1 \<le> k p" and "1 \<le> l p"
    and "distance_function p = NegativeInnerProduct"
    and "lsh_family p = Hyperplane
         \<or> (lsh_family p = CrossPolytope \<and> 0 \<le> num_rotations p
             \<and> 1 \<le> last_cp_dimension p
             \<and> (T = SparseVector \<longrightarrow> 1 \<le> feature_hashing_dimension p))"
  shows "\<exists>log w. construct_table T points p = (log, Inr w)
           \<and> m_num_probes w = l p
           \<and> m_max_num_candidates w = kNoMaxNumCandidates"
proof -
  have made: "\<exists>lsh. get_l lsh = l p \<and>
          (if lsh_family p = Hyperplane
           then new_HPHash T (dimension p) (k p) (l p) (seed p XOR 93384688) = Inr lsh
           else construct_cp_hash T p = Inr lsh)"
    using assms(5)
    by (cases T) (auto simp add: new_CPHashDense_def new_CPHashSparse_def)
  then obtain lsh where lsh: "get_l lsh = l p"
    and mk: "if lsh_family p = Hyperplane
           then new_HPHash T (dimension p) (k p) (l p) (seed p XOR 93384688) = Inr lsh
           else construct_cp_hash T p = Inr lsh"
    by blast
  have "construct_table T points p
          = (New_LSH # fst (construction_helper points p lsh),
             Inr (snd (construction_helper points p lsh)))"
    using assms mk
    by (auto simp add: construct_table_def split: prod.split if_splits)
  moreover have "m_num_probes (snd (construction_helper points p lsh)) = l p"
    using lsh by (simp add: construction_helper_def new_LSHNNTableWrapper_def Let_def)
  moreover have "m_max_num_candidates (snd (construction_helper points p lsh))
                   = kNoMaxNumCandidates"
    by (simp add: construction_helper_def new_LSHNNTableWrapper_def Let_def)
  ultimately show ?thesis by blast
qed

theorem valid_parameters_build_an_index_witness:
  "construct_table DenseVector example_points example_params
     = (New_LSH # fst (construction_helper example_points example_params
                         (HyperplaneHashDense 4 2 3 (409556018 XOR 93384688))),
        Inr example_index)
   \<and> m_num_probes example_index = 3
   \<and> m_max_num_candidates example_index = kNoMaxNumCandidates
   \<and> m_num_probes example_cp_index = 3"
  using valid_parameters_build_an_index [of example_params DenseVector example_points]
    valid_parameters_build_an_index [of example_cp_params SparseVector example_sparse_points]
    example_construction example_cp_construction
  by (simp add: example_params_def example_cp_params_def)

text \<open>
  C7: for both families and both point types, \<open>construct_table\<close> on valid parameters
  builds the hash function of the family and point type, from \<open>dimension\<close>, \<open>k\<close>, \<open>l\<close>
  and the family's own fields, with the seed \<open>params.seed XOR 93384688\<close>, and returns an
  index that holds this hash function.
\<close>

theorem hash_seed_is_xor:
  assumes "1 \<le> dimension p" and "1 \<le> k p" and "1 \<le> l p"
    and "distance_function p = NegativeInnerProduct"
    and "lsh_family p = Hyperplane
         \<or> (lsh_family p = CrossPolytope \<and> 0 \<le> num_rotations p
             \<and> 1 \<le> last_cp_dimension p
             \<and> (T = SparseVector \<longrightarrow> 1 \<le> feature_hashing_dimension p))"
  shows "\<exists>log w. construct_table T points p = (log, Inr w)
           \<and> get_seed (m_lsh w) = seed p XOR 93384688
           \<and> m_lsh w =
               (if lsh_family p = Hyperplane then
                  (case T of
                     DenseVector \<Rightarrow>
                       HyperplaneHashDense (dimension p) (k p) (l p) (seed p XOR 93384688)
                   | SparseVector \<Rightarrow>
                       HyperplaneHashSparse (dimension p) (k p) (l p) (seed p XOR 93384688))
                else
                  (case T of
                     DenseVector \<Rightarrow>
                       CrossPolytopeHashDense (dimension p) (k p) (l p) (num_rotations p)
                         (last_cp_dimension p) (seed p XOR 93384688)
                   | SparseVector \<Rightarrow>
                       CrossPolytopeHashSparse (dimension p) (k p) (l p) (num_rotations p)
                         (feature_hashing_dimension p) (last_cp_dimension p)
                         (seed p XOR 93384688)))"
proof -
  define made where
    "made = (if lsh_family p = Hyperplane then
               (case T of
                  DenseVector \<Rightarrow>
                    HyperplaneHashDense (dimension p) (k p) (l p) (seed p XOR 93384688)
                | SparseVector \<Rightarrow>
                    HyperplaneHashSparse (dimension p) (k p) (l p) (seed p XOR 93384688))
             else
               (case T of
                  DenseVector \<Rightarrow>
                    CrossPolytopeHashDense (dimension p) (k p) (l p) (num_rotations p)
                      (last_cp_dimension p) (seed p XOR 93384688)
                | SparseVector \<Rightarrow>
                    CrossPolytopeHashSparse (dimension p) (k p) (l p) (num_rotations p)
                      (feature_hashing_dimension p) (last_cp_dimension p)
                      (seed p XOR 93384688)))"
  have mk: "if lsh_family p = Hyperplane
            then new_HPHash T (dimension p) (k p) (l p) (seed p XOR 93384688) = Inr made
            else construct_cp_hash T p = Inr made"
    using assms(5) unfolding made_def
    by (cases T) (auto simp add: new_CPHashDense_def new_CPHashSparse_def)
  have sd: "get_seed made = seed p XOR 93384688"
    unfolding made_def by (cases T) simp_all
  have ct: "construct_table T points p
          = (New_LSH # fst (construction_helper points p made),
             Inr (snd (construction_helper points p made)))"
    using assms mk
    by (auto simp add: construct_table_def split: prod.split if_splits)
  have ml: "m_lsh (snd (construction_helper points p made)) = made"
    by (rule construction_helper_lsh)
  from ct ml sd have
    "construct_table T points p
       = (New_LSH # fst (construction_helper points p made),
          Inr (snd (construction_helper points p made)))
     \<and> get_seed (m_lsh (snd (construction_helper points p made))) = seed p XOR 93384688
     \<and> m_lsh (snd (construction_helper points p made)) = made"
    by simp
  then show ?thesis unfolding made_def by blast
qed

theorem hash_seed_is_xor_witness:
  "(\<exists>log w. construct_table DenseVector example_points example_params = (log, Inr w)
       \<and> get_seed (m_lsh w) = 502905794)
   \<and> (\<exists>log w. construct_table SparseVector example_sparse_points example_params
                 = (log, Inr w)
       \<and> get_seed (m_lsh w) = 502905794)
   \<and> (\<exists>log w. construct_table DenseVector example_points example_cp_params = (log, Inr w)
       \<and> get_seed (m_lsh w) = 93384693)
   \<and> (\<exists>log w. construct_table SparseVector example_sparse_points example_cp_params
                 = (log, Inr w)
       \<and> get_seed (m_lsh w) = 93384693)"
proof -
  have hp: "1 \<le> dimension example_params" "1 \<le> k example_params" "1 \<le> l example_params"
    "distance_function example_params = NegativeInnerProduct"
    "lsh_family example_params = Hyperplane
     \<or> (lsh_family example_params = CrossPolytope \<and> 0 \<le> num_rotations example_params
         \<and> 1 \<le> last_cp_dimension example_params
         \<and> (T = SparseVector \<longrightarrow> 1 \<le> feature_hashing_dimension example_params))" for T
    by (simp_all add: example_params_def)
  have cp: "1 \<le> dimension example_cp_params" "1 \<le> k example_cp_params"
    "1 \<le> l example_cp_params"
    "distance_function example_cp_params = NegativeInnerProduct"
    "lsh_family example_cp_params = Hyperplane
     \<or> (lsh_family example_cp_params = CrossPolytope \<and> 0 \<le> num_rotations example_cp_params
         \<and> 1 \<le> last_cp_dimension example_cp_params
         \<and> (T = SparseVector \<longrightarrow> 1 \<le> feature_hashing_dimension example_cp_params))" for T
    by (simp_all add: example_cp_params_def)
  have s1: "seed example_params XOR 93384688 = 502905794"
    by (simp add: example_params_def)
  have s2: "seed example_cp_params XOR 93384688 = 93384693"
    by (simp add: example_cp_params_def)
  from hash_seed_is_xor [OF hp, of DenseVector example_points]
    hash_seed_is_xor [OF hp, of SparseVector example_sparse_points]
    hash_seed_is_xor [OF cp, of DenseVector example_points]
    hash_seed_is_xor [OF cp, of SparseVector example_sparse_points]
  show ?thesis unfolding s1 s2 by blast
qed

text \<open>
  C8: in a successful construction, \<open>construction_helper\<close> makes a factory of tables of
  size \<open>2 \<times> |points|\<close> and a composite table of exactly \<open>params.l\<close> tables from that
  factory. A \<^verbatim>\<open>std::vector\<close> holds fewer than \<open>2\<^sup>6\<^sup>3\<close> points, which is the second
  hypothesis: there the doubling does not wrap.
\<close>

theorem tables_sized_twice_the_points:
  assumes "construct_table T points p = (log, Inr w)" and "length points < 2 ^ 63"
  shows "table_size (m_hash_table_factory w) = 2 * length points
    \<and> ct_factory (m_composite_hash_table w) = m_hash_table_factory w
    \<and> ct_l (m_composite_hash_table w) = l p
    \<and> int (length (ct_tables (m_composite_hash_table w))) = l p
    \<and> (\<forall>t \<in> set (ct_tables (m_composite_hash_table w)). ht_size t = 2 * length points)
    \<and> (\<exists>lsh hlog. log = New_LSH # hlog \<and> construction_helper points p lsh = (hlog, w)
          \<and> New_Factory \<in> set hlog \<and> New_CompositeTable \<in> set hlog)"
proof -
  from construct_table_Inr [OF assms(1)] obtain lsh where
    lp: "1 \<le> l p" and
    log: "log = New_LSH # fst (construction_helper points p lsh)" and
    w: "w = snd (construction_helper points p lsh)"
    by blast
  have sz: "(2 * length points) mod 2 ^ 64 = 2 * length points"
    using assms(2) by simp
  have f: "m_hash_table_factory w = \<lparr>table_size = 2 * length points\<rparr>"
    using w sz by (simp add: construction_helper_tables)
  have c: "m_composite_hash_table w
             = \<lparr>ct_l = l p, ct_factory = \<lparr>table_size = 2 * length points\<rparr>\<rparr>"
    using w sz by (simp add: construction_helper_tables)
  have h: "log = New_LSH # fst (construction_helper points p lsh)
           \<and> construction_helper points p lsh = (fst (construction_helper points p lsh), w)
           \<and> New_Factory \<in> set (fst (construction_helper points p lsh))
           \<and> New_CompositeTable \<in> set (fst (construction_helper points p lsh))"
    using log w by (simp add: prod_eq_iff construction_helper_log)
  have t: "int (length (ct_tables (m_composite_hash_table w))) = l p
           \<and> (\<forall>t \<in> set (ct_tables (m_composite_hash_table w)). ht_size t = 2 * length points)"
    using c lp by (auto simp add: ct_tables_def new_hash_table_def)
  have e: "\<exists>lsh hlog. log = New_LSH # hlog
             \<and> construction_helper points p lsh = (hlog, w)
             \<and> New_Factory \<in> set hlog \<and> New_CompositeTable \<in> set hlog"
    using h by blast
  from f c have "table_size (m_hash_table_factory w) = 2 * length points
      \<and> ct_factory (m_composite_hash_table w) = m_hash_table_factory w
      \<and> ct_l (m_composite_hash_table w) = l p"
    by simp
  with t e show ?thesis by simp
qed

theorem tables_sized_twice_the_points_witness:
  "length example_points < 2 ^ 63
   \<and> table_size (m_hash_table_factory example_index) = 6
   \<and> length (ct_tables (m_composite_hash_table example_index)) = 3
   \<and> ct_tables (m_composite_hash_table example_index)
       = [\<lparr>ht_size = 6\<rparr>, \<lparr>ht_size = 6\<rparr>, \<lparr>ht_size = 6\<rparr>]"
proof -
  have n: "length example_points < 2 ^ 63"
    by (simp add: example_points_def)
  from tables_sized_twice_the_points [OF example_construction n] n
  show ?thesis
    by (simp add: example_points_def example_params_def ct_tables_def new_hash_table_def
          numeral_3_eq_3)
qed

subsection \<open>The probe count and the candidate cap\<close>

text \<open>
  C4: \<open>set_num_probes p\<close> with \<open>p \<le> 0\<close> (so for 0 and for -1) throws
  \<open>LSHNearestNeighborTableError\<close> and leaves the facade, its probe count included, as it
  was; with \<open>p \<ge> 1\<close> it returns and the probe count is \<open>p\<close>.
\<close>

theorem set_num_probes_checked:
  "(p \<le> 0 \<longrightarrow>
      set_num_probes p w = (Inl (LSHNearestNeighborTableError msg_num_probes), w)
      \<and> m_num_probes (snd (set_num_probes p w)) = m_num_probes w)
   \<and> (1 \<le> p \<longrightarrow> set_num_probes p w = (Inr (), w\<lparr>m_num_probes := p\<rparr>)
        \<and> m_num_probes (snd (set_num_probes p w)) = p)"
  by (simp add: set_num_probes_def)

theorem set_num_probes_checked_witness:
  "set_num_probes 0 example_index
     = (Inl (LSHNearestNeighborTableError msg_num_probes), example_index)
   \<and> m_num_probes (snd (set_num_probes (- 1) example_index)) = 3
   \<and> m_num_probes (snd (set_num_probes 7 example_index)) = 7"
  using set_num_probes_checked [of 0 example_index]
    set_num_probes_checked [of "- 1" example_index]
    set_num_probes_checked [of 7 example_index]
  by (simp add: example_index_def construction_helper_def new_LSHNNTableWrapper_def Let_def)

text \<open>
  C10: \<open>set_max_num_candidates c\<close> returns for every \<open>c\<close>, zero and negative values
  included, and \<open>get_max_num_candidates\<close> then gives \<open>c\<close>; after a \<open>set_num_probes p\<close> that
  returned, \<open>get_num_probes\<close> gives \<open>p\<close>; both getters leave the facade as it was.
\<close>

theorem knobs_read_back:
  "set_max_num_candidates c w = (Inr (), w\<lparr>m_max_num_candidates := c\<rparr>)
   \<and> fst (get_max_num_candidates (snd (set_max_num_candidates c w))) = c
   \<and> (\<forall>w'. set_num_probes p w = (Inr (), w') \<longrightarrow> fst (get_num_probes w') = p)
   \<and> snd (get_num_probes w) = w
   \<and> snd (get_max_num_candidates w) = w"
  by (auto simp add: set_max_num_candidates_def get_max_num_candidates_def
        set_num_probes_def get_num_probes_def split: if_splits)

theorem knobs_read_back_witness:
  "set_num_probes 7 example_index = (Inr (), example_index\<lparr>m_num_probes := 7\<rparr>)
   \<and> fst (get_num_probes (example_index\<lparr>m_num_probes := 7\<rparr>)) = 7
   \<and> fst (get_max_num_candidates (snd (set_max_num_candidates 0 example_index))) = 0
   \<and> fst (get_max_num_candidates (snd (set_max_num_candidates (- 5) example_index))) = - 5"
  using knobs_read_back [of 0 example_index 7] knobs_read_back [of "- 5" example_index 7]
  by (simp add: set_num_probes_def get_num_probes_def get_max_num_candidates_def)

subsection \<open>Deriving the number of hash functions\<close>

text \<open>
  C5: for the hyperplane family and either point type,
  \<open>compute_number_of_hash_functions\<close> returns and sets \<open>k\<close> to the number of hash bits
  (for every number of bits, so for every \<open>b \<ge> 1\<close>).
\<close>

theorem hyperplane_k_is_number_of_hash_bits:
  "lsh_family p = Hyperplane \<Longrightarrow>
     compute_number_of_hash_functions T cpk b p = (Inr (), p\<lparr>k := b\<rparr>)
     \<and> k (snd (compute_number_of_hash_functions T cpk b p)) = b"
  by (cases T) (simp_all add: compute_number_of_hash_functions_def)

theorem hyperplane_k_is_number_of_hash_bits_witness:
  "lsh_family example_params = Hyperplane
   \<and> k (snd (compute_number_of_hash_functions DenseVector (\<lambda>d b old. old) 17 example_params)) = 17
   \<and> k (snd (compute_number_of_hash_functions SparseVector (\<lambda>d b old. old) 1 example_params)) = 1"
  using hyperplane_k_is_number_of_hash_bits [of example_params DenseVector "\<lambda>d b old. old" 17]
    hyperplane_k_is_number_of_hash_bits [of example_params SparseVector "\<lambda>d b old. old" 1]
  by (simp add: example_params_def)

text \<open>
  C6: for the cross-polytope family, \<open>compute_number_of_hash_functions\<close> throws a setup
  error exactly when the governing dimension is unset (\<open>\<le> 0\<close>): \<open>dimension\<close> for dense
  points, \<open>feature_hashing_dimension\<close> for sparse points. When it is set the call returns.
\<close>

theorem cross_polytope_dimension_must_be_set:
  "lsh_family p = CrossPolytope \<Longrightarrow>
     (dimension p \<le> 0 \<longrightarrow>
        compute_number_of_hash_functions DenseVector cpk b p
          = (Inl (LSHNNTableSetupError msg_dense_dimension_unset), p))
     \<and> (0 < dimension p \<longrightarrow>
        fst (compute_number_of_hash_functions DenseVector cpk b p) = Inr ())
     \<and> (feature_hashing_dimension p \<le> 0 \<longrightarrow>
        compute_number_of_hash_functions SparseVector cpk b p
          = (Inl (LSHNNTableSetupError msg_sparse_dimension_unset), p))
     \<and> (0 < feature_hashing_dimension p \<longrightarrow>
        fst (compute_number_of_hash_functions SparseVector cpk b p) = Inr ())"
  by (simp add: compute_number_of_hash_functions_def split: prod.split)

theorem cross_polytope_dimension_must_be_set_witness:
  "lsh_family (example_params\<lparr>lsh_family := CrossPolytope\<rparr>) = CrossPolytope
   \<and> fst (compute_number_of_hash_functions DenseVector (\<lambda>d b old. (b, d)) 16
             (example_params\<lparr>lsh_family := CrossPolytope\<rparr>)) = Inr ()
   \<and> fst (compute_number_of_hash_functions SparseVector (\<lambda>d b old. (b, d)) 16
             (example_params\<lparr>lsh_family := CrossPolytope\<rparr>))
       = Inl (LSHNNTableSetupError msg_sparse_dimension_unset)
   \<and> fst (compute_number_of_hash_functions DenseVector (\<lambda>d b old. (b, d)) 16
             (example_params\<lparr>lsh_family := CrossPolytope, dimension := 0\<rparr>))
       = Inl (LSHNNTableSetupError msg_dense_dimension_unset)
   \<and> fst (compute_number_of_hash_functions SparseVector (\<lambda>d b old. (b, d)) 16
             (example_params\<lparr>lsh_family := CrossPolytope, feature_hashing_dimension := 8\<rparr>))
       = Inr ()"
  using cross_polytope_dimension_must_be_set
      [of "example_params\<lparr>lsh_family := CrossPolytope\<rparr>" "\<lambda>d b old. (b, d)" 16]
    cross_polytope_dimension_must_be_set
      [of "example_params\<lparr>lsh_family := CrossPolytope, dimension := 0\<rparr>"
          "\<lambda>d b old. (b, d)" 16]
    cross_polytope_dimension_must_be_set
      [of "example_params\<lparr>lsh_family := CrossPolytope, feature_hashing_dimension := 8\<rparr>"
          "\<lambda>d b old. (b, d)" 16]
  by (simp add: example_params_def)

text \<open>
  C9: \<open>compute_number_of_hash_functions\<close> leaves the struct as it was but for \<open>k\<close> in the
  hyperplane case, and but for \<open>k\<close> and \<open>last_cp_dimension\<close> in the cross-polytope case;
  \<open>dimension\<close>, \<open>l\<close>, \<open>distance_function\<close>, \<open>lsh_family\<close>, \<open>num_rotations\<close>,
  \<open>feature_hashing_dimension\<close> and \<open>seed\<close> are never changed, and a call that throws
  changes nothing.
\<close>

theorem compute_frame:
  "(lsh_family p = Hyperplane \<longrightarrow>
      snd (compute_number_of_hash_functions T cpk b p)
        = p\<lparr>k := k (snd (compute_number_of_hash_functions T cpk b p))\<rparr>)
   \<and> (lsh_family p = CrossPolytope \<longrightarrow>
      snd (compute_number_of_hash_functions T cpk b p)
        = p\<lparr>k := k (snd (compute_number_of_hash_functions T cpk b p)),
             last_cp_dimension :=
               last_cp_dimension (snd (compute_number_of_hash_functions T cpk b p))\<rparr>)
   \<and> (\<forall>e. fst (compute_number_of_hash_functions T cpk b p) = Inl e \<longrightarrow>
          snd (compute_number_of_hash_functions T cpk b p) = p)
   \<and> dimension (snd (compute_number_of_hash_functions T cpk b p)) = dimension p
   \<and> l (snd (compute_number_of_hash_functions T cpk b p)) = l p
   \<and> distance_function (snd (compute_number_of_hash_functions T cpk b p))
       = distance_function p
   \<and> lsh_family (snd (compute_number_of_hash_functions T cpk b p)) = lsh_family p
   \<and> num_rotations (snd (compute_number_of_hash_functions T cpk b p)) = num_rotations p
   \<and> feature_hashing_dimension (snd (compute_number_of_hash_functions T cpk b p))
       = feature_hashing_dimension p
   \<and> seed (snd (compute_number_of_hash_functions T cpk b p)) = seed p"
  by (cases T) (simp_all add: compute_number_of_hash_functions_def split: prod.split)

theorem compute_frame_witness:
  "compute_number_of_hash_functions DenseVector (\<lambda>d b old. (b, d)) 16
       (example_params\<lparr>lsh_family := CrossPolytope\<rparr>)
     = (Inr (), example_params\<lparr>lsh_family := CrossPolytope, k := 16, last_cp_dimension := 4\<rparr>)
   \<and> compute_number_of_hash_functions SparseVector (\<lambda>d b old. (b, d)) 16
       (example_params\<lparr>lsh_family := CrossPolytope\<rparr>)
     = (Inl (LSHNNTableSetupError msg_sparse_dimension_unset),
        example_params\<lparr>lsh_family := CrossPolytope\<rparr>)
   \<and> snd (compute_number_of_hash_functions SparseVector (\<lambda>d b old. (b, d)) 16 example_params)
     = example_params\<lparr>k := 16\<rparr>"
  using compute_frame [of "example_params\<lparr>lsh_family := CrossPolytope\<rparr>" DenseVector
                          "\<lambda>d b old. (b, d)" 16]
    compute_frame [of "example_params\<lparr>lsh_family := CrossPolytope\<rparr>" SparseVector
                      "\<lambda>d b old. (b, d)" 16]
    compute_frame [of example_params SparseVector "\<lambda>d b old. (b, d)" 16]
  by (simp add: example_params_def compute_number_of_hash_functions_def)

end
